theory Spec2Isabelle
  imports Main "HOL-Library.Word" "HOL-Library.Multiset"
begin

section \<open>JavaScript strings\<close>

text \<open>
  A JavaScript string is a sequence of UTF-16 code units. String literals of the source
  are ASCII and are written \<open>js ''...''\<close>.
\<close>

type_synonym unit16 = "16 word"
type_synonym jsstring = "unit16 list"

definition js :: "string \<Rightarrow> jsstring" where
  "js s = map of_char s"

text \<open>\<^verbatim>\<open>String.prototype.includes\<close>: the argument occurs as a contiguous run of code units.\<close>

definition startsWith :: "jsstring \<Rightarrow> jsstring \<Rightarrow> bool" where
  "startsWith s sub = (take (length sub) s = sub)"

fun str_includes :: "jsstring \<Rightarrow> jsstring \<Rightarrow> bool" where
  "str_includes [] sub = (sub = [])"
| "str_includes (x # xs) sub = (startsWith (x # xs) sub \<or> str_includes xs sub)"

text \<open>
  The decimal numeral of an integer, as a template literal \<^verbatim>\<open>${n}\<close> writes a number that
  is one.
\<close>

fun natToString :: "nat \<Rightarrow> jsstring" where
  "natToString n =
     (if n < 10 then [of_nat (48 + n)]
      else natToString (n div 10) @ [of_nat (48 + n mod 10)])"

declare natToString.simps [simp del]

definition numberToString :: "int \<Rightarrow> jsstring" where
  "numberToString i =
     (if i < 0 then js ''-'' @ natToString (nat (- i)) else natToString (nat i))"

section \<open>Regular expressions of the sign-up form\<close>

text \<open>
  The three patterns of \<^verbatim>\<open>signUp\<close> use the character classes \<^verbatim>\<open>.\<close>, \<^verbatim>\<open>\s\<close>, \<^verbatim>\<open>\S\<close> and a
  literal, the assertions \<^verbatim>\<open>^\<close> and \<^verbatim>\<open>$\<close> (no \<^verbatim>\<open>m\<close> flag), quantified classes and one
  negative lookahead. The classes are those of ECMAScript for a pattern without the
  \<^verbatim>\<open>s\<close> and \<^verbatim>\<open>u\<close> flags: \<^verbatim>\<open>.\<close> is every code unit but a line terminator, \<^verbatim>\<open>\s\<close> is white
  space or a line terminator.
\<close>

definition LineTerminator :: "unit16 \<Rightarrow> bool" where
  "LineTerminator c = (c = 0x000A \<or> c = 0x000D \<or> c = 0x2028 \<or> c = 0x2029)"

definition WhiteSpace :: "unit16 \<Rightarrow> bool" where
  "WhiteSpace c =
     (c = 0x0009 \<or> c = 0x000B \<or> c = 0x000C \<or> c = 0x0020 \<or> c = 0x00A0 \<or> c = 0x1680
      \<or> (0x2000 \<le> c \<and> c \<le> 0x200A) \<or> c = 0x202F \<or> c = 0x205F \<or> c = 0x3000
      \<or> c = 0xFEFF)"

datatype cclass = Dot | Space | NonSpace | Lit unit16

fun cmatch :: "cclass \<Rightarrow> unit16 \<Rightarrow> bool" where
  "cmatch Dot c = (\<not> LineTerminator c)"
| "cmatch Space c = (WhiteSpace c \<or> LineTerminator c)"
| "cmatch NonSpace c = (\<not> (WhiteSpace c \<or> LineTerminator c))"
| "cmatch (Lit d) c = (c = d)"

text \<open>
  A pattern is a sequence of terms. \<open>Rep c lo hi\<close> is the class \<open>c\<close> repeated at least
  \<open>lo\<close> and at most \<open>hi\<close> times (\<open>None\<close>: unbounded), so \<^verbatim>\<open>c*\<close> is \<open>Rep c 0 None\<close>, \<^verbatim>\<open>c+\<close> is
  \<open>Rep c 1 None\<close> and \<^verbatim>\<open>c{6,256}\<close> is \<open>Rep c 6 (Some 256)\<close>.
\<close>

datatype regex = Bol | Eol | Atom cclass | Rep cclass nat "nat option" | NegLookahead "regex list"

fun dec :: "nat option \<Rightarrow> nat option" where
  "dec None = None"
| "dec (Some n) = Some (n - 1)"

text \<open>The bound of a quantifier: \<open>k\<close> repetitions are within \<open>hi\<close>.\<close>

fun within :: "nat \<Rightarrow> nat option \<Rightarrow> bool" where
  "within k None = True"
| "within k (Some h) = (k \<le> h)"

text \<open>
  \<open>matchesAt rs bol s\<close>: the pattern \<open>rs\<close> matches a prefix of \<open>s\<close>, the rest of the
  input from the current position; \<open>bol\<close> tells whether that position is the start of the
  input. \<^verbatim>\<open>test\<close> only asks whether a match exists, so the order in which a backtracking
  matcher tries the alternatives does not matter.
\<close>

function matchesAt :: "regex list \<Rightarrow> bool \<Rightarrow> jsstring \<Rightarrow> bool" where
  "matchesAt [] bol s = True"
| "matchesAt (Bol # rs) bol s = (bol \<and> matchesAt rs bol s)"
| "matchesAt (Eol # rs) bol s = (s = [] \<and> matchesAt rs bol s)"
| "matchesAt (Atom c # rs) bol [] = False"
| "matchesAt (Atom c # rs) bol (x # xs) = (cmatch c x \<and> matchesAt rs False xs)"
| "matchesAt (Rep c lo hi # rs) bol [] = (lo = 0 \<and> matchesAt rs bol [])"
| "matchesAt (Rep c lo hi # rs) bol (x # xs) =
     ((lo = 0 \<and> matchesAt rs bol (x # xs))
      \<or> (hi \<noteq> Some 0 \<and> cmatch c x \<and> matchesAt (Rep c (lo - 1) (dec hi) # rs) False xs))"
| "matchesAt (NegLookahead as # rs) bol s = (\<not> matchesAt as bol s \<and> matchesAt rs bol s)"
  by pat_completeness auto
termination
  by lexicographic_order

text \<open>\<^verbatim>\<open>RegExp.prototype.test\<close> without the \<^verbatim>\<open>g\<close> and \<^verbatim>\<open>y\<close> flags: a match may start at any index.\<close>

definition test :: "regex list \<Rightarrow> jsstring \<Rightarrow> bool" where
  "test r s = list_ex (\<lambda>i. matchesAt r (i = 0) (drop i s)) [0..<Suc (length s)]"

text \<open>\<^verbatim>\<open>/^(?!\s*$).+/\<close>, \<^verbatim>\<open>/^\S+@\S+$/\<close> and \<^verbatim>\<open>/^.{6,256}$/\<close>.\<close>

definition validation_name :: "regex list" where
  "validation_name = [Bol, NegLookahead [Rep Space 0 None, Eol], Rep Dot 1 None]"

definition validation_email :: "regex list" where
  "validation_email =
     [Bol, Rep NonSpace 1 None, Atom (Lit (of_char CHR ''@'')), Rep NonSpace 1 None, Eol]"

definition validation_password :: "regex list" where
  "validation_password = [Bol, Rep Dot 6 (Some 256), Eol]"

section \<open>The API's records, requests and effects\<close>

text \<open>
  Modelled from the spec: the type declarations of \<^verbatim>\<open>@/api\<close> are not in the sources. A
  question is "a single prompt with one or more selectable or free-text options, flagged as
  first/last in sequence", an option "a choice within a question, optionally carrying a
  free-text attribute value"; the records carry the fields the pages read. Identifiers
  are strings (they are only interpolated into URLs), an option's position is a number
  that the pages pass on unchanged.
\<close>

record Attribute =
  a_value :: "jsstring option"

record Option_rec =
  o_position :: int
  o_type :: jsstring
  o_text :: jsstring
  o_attribute :: "Attribute option"

record Question =
  q_id :: jsstring
  q_text :: jsstring
  q_options :: "Option_rec list"
  q_first :: bool
  q_last :: bool

record Conversation =
  c_id :: jsstring
  c_name :: jsstring
  c_description :: jsstring
  c_tags :: "jsstring list"
  c_once :: bool

text \<open>
  A response of \<^verbatim>\<open>fetch<T>\<close> is an error object (\<^verbatim>\<open>isErrorResponse\<close>, here \<open>Inl\<close>) or the
  payload \<open>T\<close>.
\<close>

record ErrorInfo =
  e_code :: jsstring
  e_message :: jsstring

type_synonym 'a response = "ErrorInfo + 'a"

text \<open>The sign-up form: every field may be missing (\<^verbatim>\<open>Partial<SignUpForm>\<close>).\<close>

datatype field = Name | Email | Password | Code

record SignUpForm =
  f_name :: "jsstring option"
  f_email :: "jsstring option"
  f_password :: "jsstring option"
  f_code :: "jsstring option"

datatype body =
    NoBody
  | AnswerBody int "jsstring option"
  | SignUpBody SignUpForm
  | JoinBody jsstring

record request =
  r_url :: jsstring
  r_method :: jsstring
  r_json :: body

text \<open>
  Modelled from the spec: the \<^verbatim>\<open>User\<close> and \<^verbatim>\<open>Tokens\<close> of \<^verbatim>\<open>@/api\<close> are not in the sources; they
  are "plain server-defined record shapes consumed as opaque JSON", so both are JSON
  values here (a number is an integer; the pages never compute with one).
\<close>

datatype json =
    JNull
  | JBool bool
  | JNumber int
  | JString jsstring
  | JArray "json list"
  | JObject "(jsstring \<times> json) list"

type_synonym User = json
type_synonym Tokens = json

text \<open>
  What an operation does to the world, in order: a network call, a navigation
  \<^verbatim>\<open>route(url, replace)\<close>, a navigation scheduled with \<^verbatim>\<open>setTimeout\<close> and its delay in
  milliseconds, a write to the browser's storage.
\<close>

datatype nav = Nav jsstring bool

datatype effect =
    Fetch request
  | Route nav
  | SetTimeout nav nat
  | StorageSet jsstring json

fun timers :: "effect list \<Rightarrow> (nav \<times> nat) list" where
  "timers [] = []"
| "timers (SetTimeout n d # es) = (n, d) # timers es"
| "timers (e # es) = timers es"

fun fetches :: "effect list \<Rightarrow> request list" where
  "fetches [] = []"
| "fetches (Fetch r # es) = r # fetches es"
| "fetches (e # es) = fetches es"

fun routes :: "effect list \<Rightarrow> nav list" where
  "routes [] = []"
| "routes (Route n # es) = n # routes es"
| "routes (e # es) = routes es"

text \<open>
  The table \<^verbatim>\<open>errors\<close> of \<^verbatim>\<open>@/utilities/text\<close> maps a key to a message; it is a parameter
  of every operation that reads it.
\<close>

type_synonym error_table = "(jsstring \<times> jsstring) list"

definition errors_get :: "error_table \<Rightarrow> string \<Rightarrow> jsstring option" where
  "errors_get errors k = map_of errors (js k)"

section \<open>The take conversation page\<close>

record TakeState =
  t_currentError :: "jsstring option"
  t_conversation :: "Conversation option"
  t_currentQuestion :: "Question option"
  t_selectedOption :: "Option_rec option"

definition take_initial :: TakeState where
  "take_initial =
     \<lparr>t_currentError = None, t_conversation = None, t_currentQuestion = None,
      t_selectedOption = None\<rparr>"

text \<open>
  The two fetches of the page's \<^verbatim>\<open>useEffect\<close>. Each takes the response that its awaited
  call returns; an error response is thrown as an \<^verbatim>\<open>Error\<close> and caught by the \<^verbatim>\<open>catch\<close> of the
  same chain, which shows its message.
\<close>

definition fetchConversation ::
  "jsstring \<Rightarrow> Conversation response \<Rightarrow> TakeState \<Rightarrow> TakeState \<times> effect list" where
  "fetchConversation conversationId response st =
     (let req = \<lparr>r_url = js ''/conversations/'' @ conversationId, r_method = js ''get'',
                 r_json = NoBody\<rparr>
      in case response of
           Inl error \<Rightarrow> (st\<lparr>t_currentError := Some (e_message error)\<rparr>, [Fetch req])
         | Inr conversation \<Rightarrow> (st\<lparr>t_conversation := Some conversation\<rparr>, [Fetch req]))"

definition fetchQuestions ::
  "jsstring \<Rightarrow> Question list response \<Rightarrow> TakeState \<Rightarrow> TakeState \<times> effect list" where
  "fetchQuestions conversationId response st =
     (let req = \<lparr>r_url = js ''/conversations/'' @ conversationId @ js ''/questions'',
                 r_method = js ''get'', r_json = NoBody\<rparr>
      in case response of
           Inl error \<Rightarrow> (st\<lparr>t_currentError := Some (e_message error)\<rparr>, [Fetch req])
         | Inr questions \<Rightarrow>
             (st\<lparr>t_currentQuestion := List.find q_first questions\<rparr>, [Fetch req]))"

text \<open>
  \<^verbatim>\<open>answerQuestion\<close>. The non-null assertions of the source (\<^verbatim>\<open>conversation!.id\<close>,
  \<^verbatim>\<open>currentQuestion!.id\<close>, \<^verbatim>\<open>selectedOption.attribute!.value\<close>) are erased by the compiler:
  reading a property of \<^verbatim>\<open>undefined\<close> throws a \<^verbatim>\<open>TypeError\<close> while the argument of \<^verbatim>\<open>fetch\<close> is
  built, before any call is made. The state read is the one of the render that created
  the handler; the updates made before the throw stay.
\<close>

datatype completion = Returned | TypeError

definition answerInput :: "Option_rec \<Rightarrow> jsstring option option" where
  "answerInput selectedOption =
     (if o_type selectedOption = js ''select'' then Some None
      else case o_attribute selectedOption of
             None \<Rightarrow> None
           | Some attribute \<Rightarrow> Some (a_value attribute))"

definition answerRequest :: "Conversation \<Rightarrow> Question \<Rightarrow> int \<Rightarrow> jsstring option \<Rightarrow> request" where
  "answerRequest conversation currentQuestion position input =
     \<lparr>r_url = js ''/conversations/'' @ c_id conversation @ js ''/questions/''
              @ q_id currentQuestion @ js ''/answer'',
      r_method = js ''put'',
      r_json = AnswerBody position input\<rparr>"

definition answerQuestion ::
  "error_table \<Rightarrow> Question option response \<Rightarrow> TakeState
     \<Rightarrow> TakeState \<times> effect list \<times> completion" where
  "answerQuestion errors response st =
     (let st1 = st\<lparr>t_currentError := None\<rparr> in
      case t_selectedOption st of
        None \<Rightarrow>
          (st1\<lparr>t_currentError := errors_get errors ''option-was-not-selected''\<rparr>, [], Returned)
      | Some selectedOption \<Rightarrow>
          (let st2 = st1\<lparr>t_currentQuestion := None, t_selectedOption := None\<rparr> in
           case t_conversation st of
             None \<Rightarrow> (st2, [], TypeError)
           | Some conversation \<Rightarrow>
               (case t_currentQuestion st of
                  None \<Rightarrow> (st2, [], TypeError)
                | Some currentQuestion \<Rightarrow>
                    (case answerInput selectedOption of
                       None \<Rightarrow> (st2, [], TypeError)
                     | Some input \<Rightarrow>
                         (let req = answerRequest conversation currentQuestion
                                      (o_position selectedOption) input
                          in case response of
                               Inl error \<Rightarrow>
                                 (st2\<lparr>t_currentError := Some (e_message error)\<rparr>,
                                  [Fetch req], Returned)
                             | Inr None \<Rightarrow>
                                 (st2, [Fetch req, Route (Nav (js ''/conversations'') False)],
                                  Returned)
                             | Inr (Some next) \<Rightarrow>
                                 (st2\<lparr>t_currentQuestion := Some next\<rparr>, [Fetch req],
                                  Returned))))))"

text \<open>
  What the page renders. \<^verbatim>\<open>renderMarkdown\<close> (the libraries \<^verbatim>\<open>marked\<close> and \<^verbatim>\<open>dompurify\<close>) is a
  parameter.

  \<^verbatim>\<open>RadioButton\<close> (\<^verbatim>\<open>radio-button.tsx\<close>) renders an input with the given id and checked state
  and a label whose HTML is the property \<^verbatim>\<open>text\<close>; a click runs the action, which here
  selects an option. It renders nothing of its children. \<^verbatim>\<open>OptionItem\<close> gives the button
  of a \<^verbatim>\<open>select\<close> option no \<^verbatim>\<open>text\<close> and the rendered markdown as children, so the label's
  HTML is \<^verbatim>\<open>undefined\<close> (here \<open>None\<close>) and the markdown is not shown; an \<^verbatim>\<open>input\<close> option
  has its text as the label and a text input beside it.
\<close>

record RadioButtonView =
  rb_id :: jsstring
  rb_checked :: bool
  rb_class :: jsstring
  rb_label :: "jsstring option"
  rb_selects :: Option_rec

definition RadioButton ::
  "jsstring \<Rightarrow> jsstring option \<Rightarrow> bool \<Rightarrow> Option_rec \<Rightarrow> jsstring \<Rightarrow> jsstring option
     \<Rightarrow> RadioButtonView" where
  "RadioButton ident text selected option cls children =
     \<lparr>rb_id = ident, rb_checked = selected,
      rb_class = js ''ml-2 text-md font-normal '' @ cls,
      rb_label = text, rb_selects = option\<rparr>"

record TextInputView =
  ti_id :: jsstring
  ti_type :: jsstring

datatype OptionItemView =
    SelectItem RadioButtonView
  | InputItem RadioButtonView TextInputView
  | EmptyItem

definition OptionItem :: "(jsstring \<Rightarrow> jsstring) \<Rightarrow> Option_rec \<Rightarrow> bool \<Rightarrow> OptionItemView" where
  "OptionItem renderMarkdown option selected =
     (if o_type option = js ''select''
      then SelectItem
             (RadioButton (js ''option-'' @ numberToString (o_position option)) None selected
                option (js ''leading-none text-md text-gray-800 dark:text-gray-300 font-bold'')
                (Some (renderMarkdown (o_text option))))
      else if o_type option = js ''input''
      then InputItem
             (RadioButton (js ''option-'' @ numberToString (o_position option))
                (Some (o_text option)) selected option
                (js ''leading-none text-gray-800 dark:text-gray-400'') None)
             \<lparr>ti_id = js ''option-'' @ numberToString (o_position option),
              ti_type = js ''text''\<rparr>
      else EmptyItem)"

record QuestionView =
  qv_html :: jsstring
  qv_options :: "OptionItemView list"
  qv_button :: jsstring

record TakeView =
  tv_heading :: jsstring
  tv_loading :: bool
  tv_class :: jsstring
  tv_question :: "QuestionView option"
  tv_toast :: "jsstring option"

definition isSelected :: "Option_rec option \<Rightarrow> Option_rec \<Rightarrow> bool" where
  "isSelected selectedOption option =
     (case selectedOption of
        None \<Rightarrow> False
      | Some selected \<Rightarrow> o_position option = o_position selected)"

definition renderQuestion ::
  "(jsstring \<Rightarrow> jsstring) \<Rightarrow> Option_rec option \<Rightarrow> Question \<Rightarrow> QuestionView" where
  "renderQuestion renderMarkdown selectedOption currentQuestion =
     \<lparr>qv_html = renderMarkdown (q_text currentQuestion),
      qv_options =
        map (\<lambda>option. OptionItem renderMarkdown option (isSelected selectedOption option))
          (q_options currentQuestion),
      qv_button = (if q_last currentQuestion then js ''Finish'' else js ''Next'')\<rparr>"

definition TakeConversationPage :: "(jsstring \<Rightarrow> jsstring) \<Rightarrow> TakeState \<Rightarrow> TakeView" where
  "TakeConversationPage renderMarkdown st =
     \<lparr>tv_heading =
        (case t_conversation st of
           None \<Rightarrow> js ''Conversation''
         | Some conversation \<Rightarrow> c_name conversation),
      tv_loading = (t_currentQuestion st = None),
      tv_class =
        js ''sm:rounded-lg ''
          @ (if t_currentQuestion st = None then js ''hidden'' else js ''block''),
      tv_question =
        map_option (renderQuestion renderMarkdown (t_selectedOption st)) (t_currentQuestion st),
      tv_toast = t_currentError st\<rparr>"

section \<open>The conversation list page\<close>

text \<open>
  \<^verbatim>\<open>Array.prototype.sort\<close> with a comparison function is stable; for a consistent
  comparison function its result is the stable insertion of every element, an element
  going before the first one it does not compare greater than. \<^verbatim>\<open>localeCompare\<close> depends on
  the host's locale and is a parameter: negative, zero or positive.
\<close>

fun insert_by :: "('a \<Rightarrow> 'a \<Rightarrow> int) \<Rightarrow> 'a \<Rightarrow> 'a list \<Rightarrow> 'a list" where
  "insert_by cmp x [] = [x]"
| "insert_by cmp x (y # ys) = (if cmp x y \<le> 0 then x # y # ys else y # insert_by cmp x ys)"

definition array_sort :: "('a \<Rightarrow> 'a \<Rightarrow> int) \<Rightarrow> 'a list \<Rightarrow> 'a list" where
  "array_sort cmp xs = foldr (insert_by cmp) xs []"


record ListState =
  l_currentError :: "jsstring option"
  l_conversations :: "Conversation list option"


definition byName :: "(jsstring \<Rightarrow> jsstring \<Rightarrow> int) \<Rightarrow> Conversation \<Rightarrow> Conversation \<Rightarrow> int" where
  "byName localeCompare a b = localeCompare (c_name a) (c_name b)"

definition fetchConversations ::
  "(jsstring \<Rightarrow> jsstring \<Rightarrow> int) \<Rightarrow> Conversation list response \<Rightarrow> ListState
     \<Rightarrow> ListState \<times> effect list" where
  "fetchConversations localeCompare response st =
     (let req = \<lparr>r_url = js ''/conversations'', r_method = js ''get'', r_json = NoBody\<rparr>
      in case response of
           Inl error \<Rightarrow> (st\<lparr>l_currentError := Some (e_message error)\<rparr>, [Fetch req])
         | Inr conversations \<Rightarrow>
             (st\<lparr>l_conversations := Some (array_sort (byName localeCompare) conversations)\<rparr>,
              [Fetch req]))"

text \<open>
  The rendered page. A button carries its properties and the navigation its action
  makes; the cells of a row that exist only for groot are \<open>iv_management\<close> (the tags and
  \<^verbatim>\<open>once.toString()\<close>).
\<close>

record ButtonView =
  b_id :: jsstring
  b_text :: jsstring
  b_action :: nav
  b_type :: jsstring
  b_class :: jsstring

record ConversationItemView =
  iv_name :: jsstring
  iv_description :: jsstring
  iv_management :: "(jsstring list \<times> jsstring) option"
  iv_take :: ButtonView
  iv_edit :: ButtonView

definition ConversationItem :: "Conversation \<Rightarrow> bool \<Rightarrow> ConversationItemView" where
  "ConversationItem conversation groot =
     \<lparr>iv_name = c_name conversation,
      iv_description = c_description conversation,
      iv_management =
        (if groot
         then Some (c_tags conversation, if c_once conversation then js ''true'' else js ''false'')
         else None),
      iv_take =
        \<lparr>b_id = js ''take-conversation-button'', b_text = js ''Take'',
         b_action = Nav (js ''/conversations/'' @ c_id conversation) False,
         b_type = js ''text'',
         b_class = js ''col-span-1 w-fit text-secondary dark:text-secondary-dark font-semibold''\<rparr>,
      iv_edit =
        \<lparr>b_id = js ''edit-conversation-button'', b_text = js ''Edit'',
         b_action = Nav (js ''/conversations/'' @ c_id conversation @ js ''/edit'') False,
         b_type = js ''text'',
         b_class =
           js ''col-span-1 w-fit text-secondary dark:text-secondary-dark font-semibold ''
             @ (if groot then js '''' else js ''hidden'')\<rparr>\<rparr>"

record ListView =
  lv_create :: ButtonView
  lv_loading :: bool
  lv_class :: jsstring
  lv_headers :: "jsstring list"
  lv_rows :: "ConversationItemView list"
  lv_toast :: "jsstring option"

definition ConversationListPage :: "bool \<Rightarrow> ListState \<Rightarrow> ListView" where
  "ConversationListPage groot st =
     \<lparr>lv_create =
        \<lparr>b_id = js ''create-conversation-button'', b_text = js ''Create'',
         b_action = Nav (js ''/conversations/create'') False,
         b_type = js ''filled'',
         b_class = (if groot then js ''block'' else js ''hidden'')\<rparr>,
      lv_loading = (l_conversations st = None \<and> l_currentError st = None),
      lv_class =
        js ''overflow-x-auto sm:rounded-lg ''
          @ (if l_conversations st = None then js ''hidden'' else js ''block''),
      lv_headers =
        [js ''Name'', js ''Description'']
          @ (if groot then [js ''Tags'', js ''Once''] else [])
          @ [js ''Actions''],
      lv_rows =
        (case l_conversations st of
           None \<Rightarrow> []
         | Some conversations \<Rightarrow>
             map (\<lambda>conversation. ConversationItem conversation groot) conversations),
      lv_toast = l_currentError st\<rparr>"





section \<open>The sign-up page\<close>

record SignUpFormAction =
  a_type :: jsstring
  a_field :: field
  a_payload :: "jsstring option"

fun get_field :: "field \<Rightarrow> SignUpForm \<Rightarrow> jsstring option" where
  "get_field Name form = f_name form"
| "get_field Email form = f_email form"
| "get_field Password form = f_password form"
| "get_field Code form = f_code form"

fun set_field :: "field \<Rightarrow> jsstring \<Rightarrow> SignUpForm \<Rightarrow> SignUpForm" where
  "set_field Name v form = form\<lparr>f_name := Some v\<rparr>"
| "set_field Email v form = form\<lparr>f_email := Some v\<rparr>"
| "set_field Password v form = form\<lparr>f_password := Some v\<rparr>"
| "set_field Code v form = form\<lparr>f_code := Some v\<rparr>"

text \<open>
  The reducer: \<^verbatim>\<open>{...state, [action.field]: action.payload}\<close> for an \<^verbatim>\<open>update-field\<close> action
  with a payload, the state itself otherwise.
\<close>

definition reducer :: "SignUpForm \<Rightarrow> SignUpFormAction \<Rightarrow> SignUpForm" where
  "reducer state action =
     (if a_type action = js ''update-field''
      then (case a_payload action of
              None \<Rightarrow> state
            | Some payload \<Rightarrow> set_field (a_field action) payload state)
      else state)"

record SignUpState =
  s_signUpForm :: SignUpForm
  s_currentError :: "jsstring option"
  s_isLoading :: bool

definition form_initial :: SignUpForm where
  "form_initial = \<lparr>f_name = None, f_email = None, f_password = None, f_code = None\<rparr>"

text \<open>\<^verbatim>\<open>x ?? ''\<close> and the truth value of an optional string.\<close>

definition orEmpty :: "jsstring option \<Rightarrow> jsstring" where
  "orEmpty v = (case v of None \<Rightarrow> [] | Some s \<Rightarrow> s)"

definition truthy :: "jsstring option \<Rightarrow> bool" where
  "truthy v = (case v of None \<Rightarrow> False | Some s \<Rightarrow> s \<noteq> [])"

text \<open>The three checks of \<^verbatim>\<open>signUp\<close>, in its order, with a missing field read as \<^verbatim>\<open>''\<close>.\<close>

definition passesValidation :: "SignUpForm \<Rightarrow> bool" where
  "passesValidation form =
     (test validation_name (orEmpty (f_name form))
      \<and> test validation_email (orEmpty (f_email form))
      \<and> test validation_password (orEmpty (f_password form)))"

text \<open>The message shown for an error response of the account creation.\<close>

definition signUpErrorMessage :: "error_table \<Rightarrow> ErrorInfo \<Rightarrow> jsstring option" where
  "signUpErrorMessage errors error =
     (if e_code error = js ''improper-payload''
      then (if str_includes (e_message error) (js ''password'')
            then errors_get errors ''weak-password''
            else errors_get errors ''invalid-email-address'')
      else if e_code error = js ''entity-already-exists''
      then errors_get errors ''user-already-exists''
      else Some (e_message error))"

definition signUpRequest :: "SignUpForm \<Rightarrow> request" where
  "signUpRequest form =
     \<lparr>r_url = js ''/auth/signup'', r_method = js ''post'', r_json = SignUpBody form\<rparr>"

definition joinRequest :: "jsstring \<Rightarrow> request" where
  "joinRequest code =
     \<lparr>r_url = js ''/groups/join'', r_method = js ''put'', r_json = JoinBody code\<rparr>"

definition redirectTarget :: "jsstring option \<Rightarrow> jsstring" where
  "redirectTarget redirectTo = (case redirectTo of None \<Rightarrow> js ''/'' | Some target \<Rightarrow> target)"

text \<open>
  \<^verbatim>\<open>signUp\<close>. \<open>redirectTo\<close> is the \<^verbatim>\<open>redirect\<close> parameter of the page's URL; the two
  responses are those of the account creation and of the group join, each read only if
  its call is made.
\<close>

definition signUp ::
  "error_table \<Rightarrow> jsstring option \<Rightarrow> (User \<times> Tokens) response \<Rightarrow> unit response \<Rightarrow> SignUpState
     \<Rightarrow> SignUpState \<times> effect list" where
  "signUp errors redirectTo signUpResponse codeResponse st =
     (let signUpForm = s_signUpForm st;
          st1 = st\<lparr>s_isLoading := True, s_currentError := None\<rparr>
      in if \<not> test validation_name (orEmpty (f_name signUpForm))
         then (st1\<lparr>s_isLoading := False,
                   s_currentError := errors_get errors ''incomplete-input''\<rparr>, [])
         else if \<not> test validation_email (orEmpty (f_email signUpForm))
         then (st1\<lparr>s_isLoading := False,
                   s_currentError := errors_get errors ''invalid-email-address''\<rparr>, [])
         else if \<not> test validation_password (orEmpty (f_password signUpForm))
         then (st1\<lparr>s_isLoading := False,
                   s_currentError := errors_get errors ''weak-password''\<rparr>, [])
         else
           (case signUpResponse of
              Inl error \<Rightarrow>
                (st1\<lparr>s_currentError := signUpErrorMessage errors error, s_isLoading := False\<rparr>,
                 [Fetch (signUpRequest signUpForm)])
            | Inr (user, tokens) \<Rightarrow>
                (let saved = [Fetch (signUpRequest signUpForm),
                              StorageSet (js ''user'') user,
                              StorageSet (js ''tokens'') tokens];
                     finish = [Route (Nav (redirectTarget redirectTo) True)]
                 in if truthy (f_code signUpForm)
                    then (case codeResponse of
                            Inl error \<Rightarrow>
                              (st1\<lparr>s_currentError := Some (e_message error)\<rparr>,
                               saved @ [Fetch (joinRequest (orEmpty (f_code signUpForm))),
                                        SetTimeout (Nav (js ''/groups'') True) 2500])
                          | Inr joined \<Rightarrow>
                              (st1\<lparr>s_isLoading := False\<rparr>,
                               saved @ [Fetch (joinRequest (orEmpty (f_code signUpForm)))]
                                 @ finish))
                    else (st1\<lparr>s_isLoading := False\<rparr>, saved @ finish))))"

text \<open>
  The browser's storage (\<^verbatim>\<open>@/utilities/storage\<close>): keys and their values, the latest
  write of a key first.
\<close>

type_synonym storage = "(jsstring \<times> json) list"

definition storage_set :: "jsstring \<Rightarrow> json \<Rightarrow> storage \<Rightarrow> storage" where
  "storage_set k v s = (k, v) # s"

definition storage_get :: "jsstring \<Rightarrow> storage \<Rightarrow> json option" where
  "storage_get k s = map_of s k"

text \<open>The storage after the writes of a trace.\<close>

fun stored_after :: "storage \<Rightarrow> effect list \<Rightarrow> storage" where
  "stored_after s [] = s"
| "stored_after s (StorageSet k v # es) = stored_after (storage_set k v s) es"
| "stored_after s (e # es) = stored_after s es"

text \<open>
  Modelled from the spec: \<^verbatim>\<open>isAuthenticated\<close> of \<^verbatim>\<open>@/utilities/auth\<close> is not in the sources.
  The auth utility "checks for the presence of a valid session", and "session tokens are
  persisted in browser storage": the user is authenticated when the storage holds
  tokens.
\<close>

definition isAuthenticated :: "storage \<Rightarrow> bool" where
  "isAuthenticated s = (storage_get (js ''tokens'') s \<noteq> None)"

text \<open>
  The page, as every render runs it: when the user is signed in it navigates to the
  redirect target and returns nothing (no form, no toast); otherwise it returns the form
  with the values of its fields, the button (hidden while loading), the loading indicator
  and the toast with the current error.
\<close>

record SignUpView =
  sv_name :: "jsstring option"
  sv_email :: "jsstring option"
  sv_password :: "jsstring option"
  sv_code :: "jsstring option"
  sv_button_class :: jsstring
  sv_loading :: bool
  sv_toast :: "jsstring option"

definition SignUpPage ::
  "jsstring option \<Rightarrow> storage \<Rightarrow> SignUpState \<Rightarrow> effect list \<times> SignUpView option" where
  "SignUpPage redirectTo stored st =
     (if isAuthenticated stored
      then ([Route (Nav (redirectTarget redirectTo) True)], None)
      else ([],
            Some \<lparr>sv_name = f_name (s_signUpForm st), sv_email = f_email (s_signUpForm st),
                  sv_password = f_password (s_signUpForm st), sv_code = f_code (s_signUpForm st),
                  sv_button_class = (if s_isLoading st then js ''hidden'' else js ''w-full''),
                  sv_loading = s_isLoading st, sv_toast = s_currentError st\<rparr>))"

section \<open>Sample data\<close>

text \<open>Concrete values at which the theorems below are instantiated.\<close>

definition sampleSelect :: Option_rec where
  "sampleSelect =
     \<lparr>o_position = 1, o_type = js ''select'', o_text = js ''Fine'', o_attribute = None\<rparr>"

definition sampleInput :: Option_rec where
  "sampleInput =
     \<lparr>o_position = 2, o_type = js ''input'', o_text = js ''Other'',
      o_attribute = Some \<lparr>a_value = Some (js ''tired'')\<rparr>\<rparr>"

definition sampleQuestion :: Question where
  "sampleQuestion =
     \<lparr>q_id = js ''q1'', q_text = js ''How are you?'', q_options = [sampleSelect, sampleInput],
      q_first = True, q_last = False\<rparr>"

definition sampleLast :: Question where
  "sampleLast =
     \<lparr>q_id = js ''q2'', q_text = js ''Anything else?'', q_options = [sampleInput],
      q_first = False, q_last = True\<rparr>"

definition sampleConversation :: Conversation where
  "sampleConversation =
     \<lparr>c_id = js ''c7'', c_name = js ''Check-in'', c_description = js ''Weekly check-in'',
      c_tags = [js ''weekly''], c_once = False\<rparr>"

definition sampleTaking :: TakeState where
  "sampleTaking =
     \<lparr>t_currentError = None, t_conversation = Some sampleConversation,
      t_currentQuestion = Some sampleQuestion, t_selectedOption = Some sampleInput\<rparr>"

definition sampleErrors :: error_table where
  "sampleErrors =
     [(js ''incomplete-input'', js ''Please fill in all the fields''),
      (js ''invalid-email-address'', js ''Please enter a valid email address''),
      (js ''weak-password'', js ''Please enter a longer password''),
      (js ''user-already-exists'', js ''This email address is already in use''),
      (js ''option-was-not-selected'', js ''Please select an option'')]"

definition sampleForm :: SignUpForm where
  "sampleForm =
     \<lparr>f_name = Some (js ''Ada Lovelace''), f_email = Some (js ''ada@example.org''),
      f_password = Some (js ''analytical''), f_code = Some (js ''engine'')\<rparr>"

definition sampleSignUp :: SignUpState where
  "sampleSignUp = \<lparr>s_signUpForm = sampleForm, s_currentError = None, s_isLoading = False\<rparr>"

definition sampleUser :: User where
  "sampleUser = JObject [(js ''name'', JString (js ''Ada Lovelace''))]"

definition sampleTokens :: Tokens where
  "sampleTokens = JObject [(js ''bearer'', JString (js ''t0k3n''))]"

definition passwordError :: ErrorInfo where
  "passwordError = \<lparr>e_code = js ''improper-payload'', e_message = js ''password is too short''\<rparr>"

definition emailError :: ErrorInfo where
  "emailError = \<lparr>e_code = js ''improper-payload'', e_message = js ''email is malformed''\<rparr>"

definition serverError :: ErrorInfo where
  "serverError = \<lparr>e_code = js ''server-crash'', e_message = js ''Something went wrong''\<rparr>"

text \<open>
  The state of the take page when the fetch of the conversation has failed, the fetch of
  the questions has succeeded and the user has selected the input option of the first
  question; and the same with an input option that carries no attribute.
\<close>

definition sampleUnloaded :: TakeState where
  "sampleUnloaded =
     (fst (fetchQuestions (js ''c7'') (Inr [sampleQuestion])
        (fst (fetchConversation (js ''c7'') (Inl serverError) take_initial))))
     \<lparr>t_selectedOption := Some sampleInput\<rparr>"

definition sampleBare :: Option_rec where
  "sampleBare = sampleInput\<lparr>o_attribute := None\<rparr>"

definition separatorForm :: SignUpForm where
  "separatorForm = sampleForm\<lparr>f_password := Some (js ''abc'' @ [0x2028] @ js ''def'')\<rparr>"




section \<open>What the three patterns accept\<close>

lemma within_dec: "hi \<noteq> Some 0 \<Longrightarrow> within k (dec hi) = within (Suc k) hi"
  by (cases hi) auto

lemma within_zero: "within 0 hi"
  by (cases hi) auto

lemma matchesAt_Rep:
  "matchesAt (Rep c lo hi # rs) bol s \<longleftrightarrow>
     (\<exists>k\<le>length s. lo \<le> k \<and> within k hi \<and> (\<forall>x\<in>set (take k s). cmatch c x)
        \<and> matchesAt rs (bol \<and> k = 0) (drop k s))"
proof (induction s arbitrary: lo hi bol)
  case Nil
  show ?case by (simp add: within_zero)
next
  case (Cons x xs)
  let ?P = "\<lambda>k. lo \<le> k \<and> within k hi \<and> (\<forall>y\<in>set (take k (x # xs)). cmatch c y)
        \<and> matchesAt rs (bol \<and> k = 0) (drop k (x # xs))"
  have zero: "?P 0 \<longleftrightarrow> lo = 0 \<and> matchesAt rs bol (x # xs)"
    by (simp add: within_zero)
  have suc: "?P (Suc k) \<longleftrightarrow>
      hi \<noteq> Some 0 \<and> cmatch c x \<and> lo - 1 \<le> k \<and> within k (dec hi)
        \<and> (\<forall>y\<in>set (take k xs). cmatch c y) \<and> matchesAt rs False (drop k xs)" for k
  proof (cases "hi = Some 0")
    case True
    then show ?thesis by simp
  next
    case False
    then show ?thesis by (auto simp: within_dec)
  qed
  have "(\<exists>k\<le>length (x # xs). ?P k) \<longleftrightarrow> ?P 0 \<or> (\<exists>k\<le>length xs. ?P (Suc k))"
  proof
    assume "\<exists>k\<le>length (x # xs). ?P k"
    then obtain k where k: "k \<le> length (x # xs)" "?P k" by blast
    show "?P 0 \<or> (\<exists>k\<le>length xs. ?P (Suc k))"
    proof (cases k)
      case 0
      with k show ?thesis by blast
    next
      case (Suc j)
      with k have "j \<le> length xs" "?P (Suc j)" by simp_all
      then show ?thesis by blast
    qed
  next
    assume "?P 0 \<or> (\<exists>k\<le>length xs. ?P (Suc k))"
    then show "\<exists>k\<le>length (x # xs). ?P k"
    proof
      assume "?P 0"
      then show ?thesis by (intro exI[of _ 0]) simp
    next
      assume "\<exists>k\<le>length xs. ?P (Suc k)"
      then obtain k where "k \<le> length xs" "?P (Suc k)" by blast
      then show ?thesis by (intro exI[of _ "Suc k"]) simp
    qed
  qed
  also have "\<dots> \<longleftrightarrow> (lo = 0 \<and> matchesAt rs bol (x # xs))
      \<or> (hi \<noteq> Some 0 \<and> cmatch c x \<and> matchesAt (Rep c (lo - 1) (dec hi) # rs) False xs)"
    unfolding zero suc Cons.IH [of "lo - 1" "dec hi" False] by auto
  finally show ?case by simp
qed

lemma whole_rest:
  "(\<exists>k\<le>length s. lo \<le> k \<and> P k (take k s) \<and> drop k s = []) \<longleftrightarrow> lo \<le> length s \<and> P (length s) s"
proof
  assume "\<exists>k\<le>length s. lo \<le> k \<and> P k (take k s) \<and> drop k s = []"
  then obtain k where "k \<le> length s" "lo \<le> k" "P k (take k s)" "drop k s = []" by blast
  moreover from this have "k = length s" by simp
  ultimately show "lo \<le> length s \<and> P (length s) s" by simp
next
  assume "lo \<le> length s \<and> P (length s) s"
  then show "\<exists>k\<le>length s. lo \<le> k \<and> P k (take k s) \<and> drop k s = []"
    by (intro exI[of _ "length s"]) simp
qed

lemma test_Bol: "test (Bol # rs) s = matchesAt rs True s"
proof -
  have "list_ex (\<lambda>i. matchesAt (Bol # rs) (i = 0) (drop i s)) [0..<Suc (length s)]
        \<longleftrightarrow> (\<exists>i<Suc (length s). i = 0 \<and> matchesAt rs True (drop i s))"
    by (auto simp: list_ex_iff)
  then show ?thesis by (simp add: test_def)
qed

lemma test_password:
  "test validation_password s \<longleftrightarrow>
     6 \<le> length s \<and> length s \<le> 256 \<and> (\<forall>c\<in>set s. \<not> LineTerminator c)"
proof -
  have "test validation_password s \<longleftrightarrow>
      (\<exists>k\<le>length s. 6 \<le> k \<and> k \<le> 256 \<and> (\<forall>x\<in>set (take k s). \<not> LineTerminator x) \<and> drop k s = [])"
    by (simp add: validation_password_def test_Bol matchesAt_Rep)
  also have "\<dots> \<longleftrightarrow> 6 \<le> length s \<and> length s \<le> 256 \<and> (\<forall>c\<in>set s. \<not> LineTerminator c)"
    using whole_rest [of s 6 "\<lambda>k t. k \<le> 256 \<and> (\<forall>x\<in>set t. \<not> LineTerminator x)"] by simp
  finally show ?thesis .
qed

lemma test_name:
  "test validation_name s \<longleftrightarrow>
     (\<exists>c\<in>set s. \<not> (WhiteSpace c \<or> LineTerminator c)) \<and> s \<noteq> [] \<and> \<not> LineTerminator (hd s)"
proof -
  have blank: "matchesAt [Rep Space 0 None, Eol] True s \<longleftrightarrow> (\<forall>c\<in>set s. WhiteSpace c \<or> LineTerminator c)"
  proof -
    have "matchesAt [Rep Space 0 None, Eol] True s \<longleftrightarrow>
        (\<exists>k\<le>length s. (\<forall>x\<in>set (take k s). WhiteSpace x \<or> LineTerminator x) \<and> drop k s = [])"
      by (simp add: matchesAt_Rep)
    also have "\<dots> \<longleftrightarrow> (\<forall>c\<in>set s. WhiteSpace c \<or> LineTerminator c)"
      using whole_rest [of s 0 "\<lambda>k t. \<forall>x\<in>set t. WhiteSpace x \<or> LineTerminator x"] by simp
    finally show ?thesis .
  qed
  have some: "matchesAt [Rep Dot 1 None] True s \<longleftrightarrow> s \<noteq> [] \<and> \<not> LineTerminator (hd s)"
  proof -
    have "matchesAt [Rep Dot 1 None] True s \<longleftrightarrow>
        (\<exists>k\<le>length s. 1 \<le> k \<and> (\<forall>x\<in>set (take k s). \<not> LineTerminator x))"
      by (simp add: matchesAt_Rep)
    also have "\<dots> \<longleftrightarrow> s \<noteq> [] \<and> \<not> LineTerminator (hd s)"
    proof (cases s)
      case Nil
      then show ?thesis by simp
    next
      case (Cons x xs)
      have "(\<exists>k\<le>length (x # xs). 1 \<le> k \<and> (\<forall>y\<in>set (take k (x # xs)). \<not> LineTerminator y))
          \<longleftrightarrow> \<not> LineTerminator x"
      proof
        assume "\<exists>k\<le>length (x # xs). 1 \<le> k \<and> (\<forall>y\<in>set (take k (x # xs)). \<not> LineTerminator y)"
        then obtain k where "1 \<le> k" "\<forall>y\<in>set (take k (x # xs)). \<not> LineTerminator y" by blast
        then show "\<not> LineTerminator x" by (cases k) auto
      next
        assume "\<not> LineTerminator x"
        then show "\<exists>k\<le>length (x # xs). 1 \<le> k \<and> (\<forall>y\<in>set (take k (x # xs)). \<not> LineTerminator y)"
          by (intro exI[of _ 1]) simp
      qed
      with Cons show ?thesis by simp
    qed
    finally show ?thesis .
  qed
  have "test validation_name s \<longleftrightarrow>
      \<not> matchesAt [Rep Space 0 None, Eol] True s \<and> matchesAt [Rep Dot 1 None] True s"
    by (simp add: validation_name_def test_Bol)
  then show ?thesis unfolding blank some by blast
qed

lemma test_email:
  "test validation_email s \<longleftrightarrow>
     (\<exists>u v. s = u @ of_char CHR ''@'' # v \<and> u \<noteq> [] \<and> v \<noteq> []
        \<and> (\<forall>c\<in>set (u @ v). \<not> (WhiteSpace c \<or> LineTerminator c)))"
  (is "?L \<longleftrightarrow> ?R")
proof -
  let ?ns = "\<lambda>c. \<not> (WhiteSpace c \<or> LineTerminator c)"
  have tail: "matchesAt [Rep NonSpace lo None, Eol] b v \<longleftrightarrow> lo \<le> length v \<and> (\<forall>c\<in>set v. ?ns c)"
    for lo b v
  proof -
    have "matchesAt [Rep NonSpace lo None, Eol] b v \<longleftrightarrow>
        (\<exists>k\<le>length v. lo \<le> k \<and> (\<forall>x\<in>set (take k v). ?ns x) \<and> drop k v = [])"
      by (simp add: matchesAt_Rep)
    also have "\<dots> \<longleftrightarrow> lo \<le> length v \<and> (\<forall>c\<in>set v. ?ns c)"
      using whole_rest [of v lo "\<lambda>k t. \<forall>x\<in>set t. ?ns x"] by simp
    finally show ?thesis .
  qed
  have mid: "matchesAt [Atom (Lit a), Rep NonSpace lo None, Eol] b w \<longleftrightarrow>
      (\<exists>v. w = a # v \<and> lo \<le> length v \<and> (\<forall>c\<in>set v. ?ns c))" for a lo b w
    by (cases w) (auto simp: tail simp del: matchesAt.simps(6,7))
  have "?L \<longleftrightarrow> (\<exists>k\<le>length s. 1 \<le> k \<and> (\<forall>x\<in>set (take k s). ?ns x)
      \<and> (\<exists>v. drop k s = of_char CHR ''@'' # v \<and> v \<noteq> [] \<and> (\<forall>c\<in>set v. ?ns c)))"
    by (simp add: validation_email_def test_Bol matchesAt_Rep [of NonSpace _ None "_ # _"] mid
          Suc_le_eq del: matchesAt.simps(6,7))
  also have "\<dots> \<longleftrightarrow> ?R"
  proof
    assume "\<exists>k\<le>length s. 1 \<le> k \<and> (\<forall>x\<in>set (take k s). ?ns x)
      \<and> (\<exists>v. drop k s = of_char CHR ''@'' # v \<and> v \<noteq> [] \<and> (\<forall>c\<in>set v. ?ns c))"
    then obtain k v where k: "k \<le> length s" "1 \<le> k" "\<forall>x\<in>set (take k s). ?ns x"
      "drop k s = of_char CHR ''@'' # v" "v \<noteq> []" "\<forall>c\<in>set v. ?ns c" by blast
    have "s = take k s @ of_char CHR ''@'' # v"
      using k(4) by (metis append_take_drop_id)
    moreover have "take k s \<noteq> []" using k(1,2,4) by (cases s) auto
    ultimately show ?R using k(3,5,6)
      by (intro exI[of _ "take k s"] exI[of _ v]) auto
  next
    assume ?R
    then obtain u v where uv: "s = u @ of_char CHR ''@'' # v" "u \<noteq> []" "v \<noteq> []"
      "\<forall>c\<in>set (u @ v). ?ns c" by blast
    then show "\<exists>k\<le>length s. 1 \<le> k \<and> (\<forall>x\<in>set (take k s). ?ns x)
      \<and> (\<exists>v. drop k s = of_char CHR ''@'' # v \<and> v \<noteq> [] \<and> (\<forall>c\<in>set v. ?ns c))"
      by (intro exI[of _ "length u"]) (cases u; auto)
  qed
  finally show ?thesis .
qed

section \<open>The form reducer\<close>

text \<open>
  Claim C10. For an \<^verbatim>\<open>update-field\<close> action with a defined payload the reducer returns the
  form in which the named field holds the payload and every other field is as before;
  when the payload is undefined or the action's type is not \<^verbatim>\<open>update-field\<close> it returns the
  form unchanged.
\<close>

theorem reducer_update_field:
  "(a_type action = js ''update-field'' \<and> a_payload action = Some payload \<longrightarrow>
      get_field f (reducer state action) =
        (if f = a_field action then Some payload else get_field f state))
   \<and> (a_payload action = None \<or> a_type action \<noteq> js ''update-field'' \<longrightarrow>
        reducer state action = state)"
  by (cases f; cases "a_field action") (auto simp: reducer_def)

theorem reducer_update_field_witness:
  "get_field Email
     (reducer form_initial
        \<lparr>a_type = js ''update-field'', a_field = Email, a_payload = Some (js ''a@b'')\<rparr>)
     = Some (js ''a@b'')
   \<and> get_field Name
     (reducer form_initial
        \<lparr>a_type = js ''update-field'', a_field = Email, a_payload = Some (js ''a@b'')\<rparr>)
     = get_field Name form_initial
   \<and> reducer form_initial \<lparr>a_type = js ''update-field'', a_field = Email, a_payload = None\<rparr>
     = form_initial"
  using
    reducer_update_field
      [of "\<lparr>a_type = js ''update-field'', a_field = Email, a_payload = Some (js ''a@b'')\<rparr>"
        "js ''a@b''" Email form_initial]
    reducer_update_field
      [of "\<lparr>a_type = js ''update-field'', a_field = Email, a_payload = Some (js ''a@b'')\<rparr>"
        "js ''a@b''" Name form_initial]
    reducer_update_field
      [of "\<lparr>a_type = js ''update-field'', a_field = Email, a_payload = None\<rparr>"
        "js ''a@b''" Name form_initial]
  by simp

section \<open>Taking a conversation\<close>

text \<open>
  Claim C2. When no option is selected, \<^verbatim>\<open>answerQuestion\<close> shows the message of
  \<^verbatim>\<open>option-was-not-selected\<close>, makes no network call and leaves the rest of the state, the
  current question included, as it was; a call is made only when an option is selected.
\<close>

theorem answerQuestion_without_option:
  "(t_selectedOption st = None \<longrightarrow>
      answerQuestion errors response st =
        (st\<lparr>t_currentError := errors_get errors ''option-was-not-selected''\<rparr>, [], Returned))
   \<and> (fetches (fst (snd (answerQuestion errors response st))) \<noteq> [] \<longrightarrow>
        t_selectedOption st \<noteq> None)"
  by (auto simp: answerQuestion_def Let_def split: option.splits sum.splits)

theorem answerQuestion_without_option_witness:
  "t_selectedOption (sampleTaking\<lparr>t_selectedOption := None\<rparr>) = None
   \<and> answerQuestion [(js ''option-was-not-selected'', js ''Please select an option'')]
       (Inr None) (sampleTaking\<lparr>t_selectedOption := None\<rparr>)
     = (sampleTaking\<lparr>t_selectedOption := None,
                     t_currentError := Some (js ''Please select an option'')\<rparr>, [], Returned)
   \<and> fetches (fst (snd (answerQuestion [] (Inr None) sampleTaking))) \<noteq> []
   \<and> t_selectedOption sampleTaking \<noteq> None"
  using answerQuestion_without_option
    [of "sampleTaking\<lparr>t_selectedOption := None\<rparr>"
      "[(js ''option-was-not-selected'', js ''Please select an option'')]" "Inr None"]
    answerQuestion_without_option [of sampleTaking "[]" "Inr None"]
  by (simp add: sampleTaking_def errors_get_def answerQuestion_def answerInput_def
        sampleInput_def js_def)






lemma answerQuestion_throws:
  "t_selectedOption st = Some selectedOption \<Longrightarrow>
   t_conversation st = None \<or> t_currentQuestion st = None \<or> answerInput selectedOption = None \<Longrightarrow>
   answerQuestion errors response st =
     (st\<lparr>t_currentError := None, t_currentQuestion := None, t_selectedOption := None\<rparr>, [],
      TypeError)"
  by (auto simp: answerQuestion_def Let_def split: option.splits)

text \<open>
  Claim C1. The claim holds of the handler only where the conversation and the current
  question are loaded and the selected option, unless of type \<^verbatim>\<open>select\<close>, carries an
  attribute (the lemma after the theorem). The handler asserts as much
  (\<^verbatim>\<open>conversation!.id\<close>, \<^verbatim>\<open>attribute!.value\<close>) and checks none of it: in the state reached when
  the conversation's fetch has failed, the questions' fetch has succeeded and the user has
  selected an option, it clears the error, the question and the selection, throws while
  it builds the request and sends nothing; the page then shows the loading indicator, no
  question and no error. The same happens for a selected input option without an
  attribute, which \<^verbatim>\<open>OptionItem\<close> lets the user select (it guards its own write with
  \<^verbatim>\<open>if (option.attribute)\<close>).
\<close>

theorem answerQuestion_throws_unloaded:
  "sampleUnloaded =
     \<lparr>t_currentError = Some (js ''Something went wrong''), t_conversation = None,
      t_currentQuestion = Some sampleQuestion, t_selectedOption = Some sampleInput\<rparr>
   \<and> o_type sampleInput = js ''input''
   \<and> answerQuestion sampleErrors (Inr (Some sampleLast)) sampleUnloaded
     = (\<lparr>t_currentError = None, t_conversation = None, t_currentQuestion = None,
         t_selectedOption = None\<rparr>, [], TypeError)
   \<and> tv_loading (TakeConversationPage id
         (fst (answerQuestion sampleErrors (Inr (Some sampleLast)) sampleUnloaded)))
   \<and> tv_question (TakeConversationPage id
         (fst (answerQuestion sampleErrors (Inr (Some sampleLast)) sampleUnloaded))) = None
   \<and> tv_toast (TakeConversationPage id
         (fst (answerQuestion sampleErrors (Inr (Some sampleLast)) sampleUnloaded))) = None
   \<and> o_type sampleBare = js ''input''
   \<and> answerQuestion sampleErrors (Inr (Some sampleLast))
       (sampleTaking\<lparr>t_selectedOption := Some sampleBare\<rparr>)
     = (sampleTaking\<lparr>t_currentQuestion := None, t_selectedOption := None\<rparr>, [], TypeError)"
proof -
  have state: "sampleUnloaded =
     \<lparr>t_currentError = Some (js ''Something went wrong''), t_conversation = None,
      t_currentQuestion = Some sampleQuestion, t_selectedOption = Some sampleInput\<rparr>"
    by (simp add: sampleUnloaded_def fetchQuestions_def fetchConversation_def take_initial_def
          serverError_def sampleQuestion_def)
  have kinds: "o_type sampleInput = js ''input''" "o_type sampleBare = js ''input''"
    by (simp_all add: sampleBare_def sampleInput_def)
  have bare: "answerInput sampleBare = None"
    by (simp add: answerInput_def sampleBare_def sampleInput_def js_def)
  have a: "answerQuestion sampleErrors (Inr (Some sampleLast)) sampleUnloaded
     = (\<lparr>t_currentError = None, t_conversation = None, t_currentQuestion = None,
         t_selectedOption = None\<rparr>, [], TypeError)"
    by (simp add: state answerQuestion_throws [of _ sampleInput])
  have b: "answerQuestion sampleErrors (Inr (Some sampleLast))
       (sampleTaking\<lparr>t_selectedOption := Some sampleBare\<rparr>)
     = (sampleTaking\<lparr>t_currentQuestion := None, t_selectedOption := None\<rparr>, [], TypeError)"
    using bare
    by (simp add: answerQuestion_throws [of _ sampleBare] sampleTaking_def)
  show ?thesis
    unfolding a b using state kinds
    by (simp add: TakeConversationPage_def)
qed

text \<open>
  What the handler does where it does not throw: it makes one call, with the option's
  position and, as input, nothing for an option of type \<^verbatim>\<open>select\<close> and the attribute's
  value otherwise; with a next question in the response that question becomes the
  current one, without one the page navigates to \<^verbatim>\<open>/conversations\<close>.
\<close>

lemma answerQuestion_submits:
  "t_selectedOption st = Some selectedOption \<and> t_conversation st = Some conversation
   \<and> t_currentQuestion st = Some currentQuestion
   \<and> (o_type selectedOption = js ''select'' \<or> o_attribute selectedOption = Some attribute)
   \<longrightarrow>
     fetches (fst (snd (answerQuestion errors response st)))
       = [\<lparr>r_url = js ''/conversations/'' @ c_id conversation @ js ''/questions/''
                    @ q_id currentQuestion @ js ''/answer'',
           r_method = js ''put'',
           r_json = AnswerBody (o_position selectedOption)
                      (if o_type selectedOption = js ''select'' then None
                       else a_value attribute)\<rparr>]
     \<and> (case response of
           Inl error \<Rightarrow> routes (fst (snd (answerQuestion errors response st))) = []
         | Inr None \<Rightarrow>
             routes (fst (snd (answerQuestion errors response st)))
               = [Nav (js ''/conversations'') False]
         | Inr (Some next) \<Rightarrow>
             t_currentQuestion (fst (answerQuestion errors response st)) = Some next
             \<and> routes (fst (snd (answerQuestion errors response st))) = [])"
  by (auto simp: answerQuestion_def answerInput_def answerRequest_def Let_def
        split: option.splits sum.splits)

section \<open>Signing up\<close>

lemma sampleForm_valid: "passesValidation sampleForm"
proof -
  have "test validation_name (js ''Ada Lovelace'')"
    by (simp add: test_name js_def WhiteSpace_def LineTerminator_def)
  moreover have "test validation_email (js ''ada@example.org'')"
    unfolding test_email
    by (intro exI[of _ "js ''ada''"] exI[of _ "js ''example.org''"])
       (simp add: js_def WhiteSpace_def LineTerminator_def)
  moreover have "test validation_password (js ''analytical'')"
    by (simp add: test_password js_def LineTerminator_def)
  ultimately show ?thesis
    by (simp add: passesValidation_def sampleForm_def orEmpty_def)
qed

lemma signUp_valid:
  "passesValidation (s_signUpForm st) \<Longrightarrow>
   signUp errors redirectTo signUpResponse codeResponse st =
     (case signUpResponse of
        Inl error \<Rightarrow>
          (st\<lparr>s_isLoading := False, s_currentError := signUpErrorMessage errors error\<rparr>,
           [Fetch (signUpRequest (s_signUpForm st))])
      | Inr (user, tokens) \<Rightarrow>
          (if truthy (f_code (s_signUpForm st))
           then (case codeResponse of
                   Inl error \<Rightarrow>
                     (st\<lparr>s_isLoading := True, s_currentError := Some (e_message error)\<rparr>,
                      [Fetch (signUpRequest (s_signUpForm st)),
                       StorageSet (js ''user'') user, StorageSet (js ''tokens'') tokens,
                       Fetch (joinRequest (orEmpty (f_code (s_signUpForm st)))),
                       SetTimeout (Nav (js ''/groups'') True) 2500])
                 | Inr joined \<Rightarrow>
                     (st\<lparr>s_isLoading := False, s_currentError := None\<rparr>,
                      [Fetch (signUpRequest (s_signUpForm st)),
                       StorageSet (js ''user'') user, StorageSet (js ''tokens'') tokens,
                       Fetch (joinRequest (orEmpty (f_code (s_signUpForm st)))),
                       Route (Nav (redirectTarget redirectTo) True)]))
           else (st\<lparr>s_isLoading := False, s_currentError := None\<rparr>,
                 [Fetch (signUpRequest (s_signUpForm st)),
                  StorageSet (js ''user'') user, StorageSet (js ''tokens'') tokens,
                  Route (Nav (redirectTarget redirectTo) True)])))"
  by (simp add: signUp_def passesValidation_def Let_def split: sum.splits prod.splits)

lemma signUp_invalid:
  "\<not> passesValidation (s_signUpForm st) \<Longrightarrow>
   signUp errors redirectTo signUpResponse codeResponse st =
     (st\<lparr>s_isLoading := False,
         s_currentError :=
           (if \<not> test validation_name (orEmpty (f_name (s_signUpForm st)))
            then errors_get errors ''incomplete-input''
            else if \<not> test validation_email (orEmpty (f_email (s_signUpForm st)))
            then errors_get errors ''invalid-email-address''
            else errors_get errors ''weak-password'')\<rparr>, [])"
  by (auto simp: signUp_def passesValidation_def Let_def)

lemma includes_password: "str_includes (js ''password is too short'') (js ''password'')"
  by (simp add: js_def startsWith_def)

lemma includes_no_password: "\<not> str_includes (js ''email is malformed'') (js ''password'')"
  by (simp add: js_def startsWith_def)

lemma separatorForm_checks:
  "test validation_name (orEmpty (f_name separatorForm))"
  "test validation_email (orEmpty (f_email separatorForm))"
  "\<not> test validation_password (orEmpty (f_password separatorForm))"
  using sampleForm_valid
  by (simp_all add: passesValidation_def separatorForm_def sampleForm_def orEmpty_def
        test_password LineTerminator_def)

text \<open>
  The message shown for an error of the account creation is not a function of the error
  code alone: two \<^verbatim>\<open>improper-payload\<close> errors show different messages according to the
  server's text.
\<close>

theorem signUp_message_counterexample:
  "e_code passwordError = e_code emailError
   \<and> s_currentError (fst (signUp sampleErrors None (Inl passwordError) (Inr ()) sampleSignUp))
       = Some (js ''Please enter a longer password'')
   \<and> s_currentError (fst (signUp sampleErrors None (Inl emailError) (Inr ()) sampleSignUp))
       = Some (js ''Please enter a valid email address'')
   \<and> js ''Please enter a longer password'' \<noteq> js ''Please enter a valid email address''"
proof -
  have valid: "passesValidation (s_signUpForm sampleSignUp)"
    by (simp add: sampleSignUp_def sampleForm_valid)
  have "signUpErrorMessage sampleErrors passwordError = Some (js ''Please enter a longer password'')"
    using includes_password
    by (simp add: signUpErrorMessage_def passwordError_def errors_get_def sampleErrors_def js_def)
  moreover have "signUpErrorMessage sampleErrors emailError
      = Some (js ''Please enter a valid email address'')"
    using includes_no_password
    by (simp add: signUpErrorMessage_def emailError_def errors_get_def sampleErrors_def js_def)
  moreover have "js ''Please enter a longer password'' \<noteq> js ''Please enter a valid email address''"
    by (simp add: js_def)
  ultimately show ?thesis
    by (simp add: signUp_valid [OF valid] passwordError_def emailError_def)
qed

text \<open>
  Claim C4, amended. For an error response of the account creation the message shown is
  determined by the error code and, for \<^verbatim>\<open>improper-payload\<close>, by whether the server's message
  contains \<^verbatim>\<open>password\<close>: \<^verbatim>\<open>improper-payload\<close> shows the table's \<^verbatim>\<open>weak-password\<close> entry when
  it does and the \<^verbatim>\<open>invalid-email-address\<close> entry when it does not,
  \<^verbatim>\<open>entity-already-exists\<close> shows the \<^verbatim>\<open>user-already-exists\<close> entry, and every other code
  shows the server's message. Two errors of one of the two known codes that agree on the
  code and on containing \<^verbatim>\<open>password\<close> show the same message.
\<close>

theorem signUp_error_message:
  "(passesValidation (s_signUpForm st) \<longrightarrow>
      s_currentError (fst (signUp errors redirectTo (Inl error) codeResponse st)) =
        (if e_code error = js ''improper-payload''
         then (if str_includes (e_message error) (js ''password'')
               then errors_get errors ''weak-password''
               else errors_get errors ''invalid-email-address'')
         else if e_code error = js ''entity-already-exists''
         then errors_get errors ''user-already-exists''
         else Some (e_message error)))
   \<and> (passesValidation (s_signUpForm st) \<and> e_code error = e_code error'
        \<and> (e_code error = js ''improper-payload'' \<or> e_code error = js ''entity-already-exists'')
        \<and> (str_includes (e_message error) (js ''password'')
             \<longleftrightarrow> str_includes (e_message error') (js ''password''))
      \<longrightarrow> s_currentError (fst (signUp errors redirectTo (Inl error) codeResponse st))
          = s_currentError (fst (signUp errors redirectTo (Inl error') codeResponse st)))"
  by (auto simp: signUp_valid signUpErrorMessage_def)

theorem signUp_error_message_witness:
  "passesValidation (s_signUpForm sampleSignUp)
   \<and> s_currentError (fst (signUp sampleErrors None (Inl passwordError) (Inr ()) sampleSignUp))
       = errors_get sampleErrors ''weak-password''
   \<and> s_currentError (fst (signUp sampleErrors None (Inl emailError) (Inr ()) sampleSignUp))
       = errors_get sampleErrors ''invalid-email-address''
   \<and> s_currentError (fst (signUp sampleErrors None (Inl serverError) (Inr ()) sampleSignUp))
       = Some (js ''Something went wrong'')
   \<and> e_code emailError = e_code (emailError\<lparr>e_message := js ''bad email''\<rparr>)
   \<and> s_currentError (fst (signUp sampleErrors None (Inl emailError) (Inr ()) sampleSignUp))
       = s_currentError (fst (signUp sampleErrors None
           (Inl (emailError\<lparr>e_message := js ''bad email''\<rparr>)) (Inr ()) sampleSignUp))"
proof -
  have valid: "passesValidation (s_signUpForm sampleSignUp)"
    by (simp add: sampleSignUp_def sampleForm_valid)
  have bad: "\<not> str_includes (js ''bad email'') (js ''password'')"
    by (simp add: js_def startsWith_def)
  have codes: "js ''server-crash'' \<noteq> js ''improper-payload''"
    "js ''server-crash'' \<noteq> js ''entity-already-exists''"
    by (simp_all add: js_def)
  have a: "s_currentError (fst (signUp sampleErrors None (Inl passwordError) (Inr ()) sampleSignUp))
       = errors_get sampleErrors ''weak-password''"
    using valid includes_password
      signUp_error_message [of sampleSignUp sampleErrors None passwordError "Inr ()" passwordError]
    by (simp add: passwordError_def)
  have b: "s_currentError (fst (signUp sampleErrors None (Inl emailError) (Inr ()) sampleSignUp))
       = errors_get sampleErrors ''invalid-email-address''"
    using valid includes_no_password
      signUp_error_message [of sampleSignUp sampleErrors None emailError "Inr ()" emailError]
    by (simp add: emailError_def)
  have c: "s_currentError (fst (signUp sampleErrors None (Inl serverError) (Inr ()) sampleSignUp))
       = Some (js ''Something went wrong'')"
    using valid codes
      signUp_error_message [of sampleSignUp sampleErrors None serverError "Inr ()" serverError]
    by (simp add: serverError_def)
  have d: "s_currentError (fst (signUp sampleErrors None (Inl emailError) (Inr ()) sampleSignUp))
       = s_currentError (fst (signUp sampleErrors None
           (Inl (emailError\<lparr>e_message := js ''bad email''\<rparr>)) (Inr ()) sampleSignUp))"
  proof -
    have "passesValidation (s_signUpForm sampleSignUp)
        \<and> e_code emailError = e_code (emailError\<lparr>e_message := js ''bad email''\<rparr>)
        \<and> (e_code emailError = js ''improper-payload''
             \<or> e_code emailError = js ''entity-already-exists'')
        \<and> (str_includes (e_message emailError) (js ''password'')
             \<longleftrightarrow> str_includes (e_message (emailError\<lparr>e_message := js ''bad email''\<rparr>))
                   (js ''password''))"
      using valid includes_no_password bad by (simp add: emailError_def)
    with signUp_error_message [of sampleSignUp sampleErrors None emailError "Inr ()"
        "emailError\<lparr>e_message := js ''bad email''\<rparr>"]
    show ?thesis by blast
  qed
  show ?thesis
    using valid a b c d by simp
qed

text \<open>
  A password of seven code units that holds a line separator (U+2028) is between 6 and
  256 long, and yet no account is created: \<^verbatim>\<open>.\<close> does not match a line terminator.
\<close>

theorem signUp_password_counterexample:
  "test validation_name (orEmpty (f_name separatorForm))
   \<and> test validation_email (orEmpty (f_email separatorForm))
   \<and> length (orEmpty (f_password separatorForm)) = 7
   \<and> signUp sampleErrors None (Inr (sampleUser, sampleTokens)) (Inr ())
        \<lparr>s_signUpForm = separatorForm, s_currentError = None, s_isLoading = False\<rparr>
     = (\<lparr>s_signUpForm = separatorForm,
         s_currentError = Some (js ''Please enter a longer password''), s_isLoading = False\<rparr>,
        [])"
proof -
  have "length (orEmpty (f_password separatorForm)) = 7"
    by (simp add: separatorForm_def orEmpty_def js_def)
  moreover have "errors_get sampleErrors ''weak-password'' = Some (js ''Please enter a longer password'')"
    by (simp add: errors_get_def sampleErrors_def js_def)
  ultimately show ?thesis
    using separatorForm_checks by (simp add: signUp_def)
qed

text \<open>
  Claim C5, amended. \<^verbatim>\<open>signUp\<close> makes the account creation call if and only if the name
  matches \<^verbatim>\<open>/^(?!\s*$).+/\<close>, the email matches \<^verbatim>\<open>/^\S+@\S+$/\<close> and the password consists of 6
  to 256 code units none of which is a line terminator (\<^verbatim>\<open>/^.{6,256}$/\<close>). The checks run in
  that order on the fields, a missing one read as the empty string; the first that fails
  sets the message of \<^verbatim>\<open>incomplete-input\<close>, \<^verbatim>\<open>invalid-email-address\<close> or \<^verbatim>\<open>weak-password\<close>
  and stops with no network call.
\<close>

theorem signUp_validation:
  "(passesValidation (s_signUpForm st) \<longleftrightarrow>
      Fetch (signUpRequest (s_signUpForm st))
        \<in> set (snd (signUp errors redirectTo signUpResponse codeResponse st)))
   \<and> (passesValidation (s_signUpForm st) \<longleftrightarrow>
        test validation_name (orEmpty (f_name (s_signUpForm st)))
        \<and> test validation_email (orEmpty (f_email (s_signUpForm st)))
        \<and> 6 \<le> length (orEmpty (f_password (s_signUpForm st)))
        \<and> length (orEmpty (f_password (s_signUpForm st))) \<le> 256
        \<and> (\<forall>c\<in>set (orEmpty (f_password (s_signUpForm st))). \<not> LineTerminator c))
   \<and> (\<not> passesValidation (s_signUpForm st) \<longrightarrow>
        signUp errors redirectTo signUpResponse codeResponse st =
          (st\<lparr>s_isLoading := False,
              s_currentError :=
                (if \<not> test validation_name (orEmpty (f_name (s_signUpForm st)))
                 then errors_get errors ''incomplete-input''
                 else if \<not> test validation_email (orEmpty (f_email (s_signUpForm st)))
                 then errors_get errors ''invalid-email-address''
                 else errors_get errors ''weak-password'')\<rparr>, []))"
proof (intro conjI)
  show "passesValidation (s_signUpForm st) \<longleftrightarrow>
      Fetch (signUpRequest (s_signUpForm st))
        \<in> set (snd (signUp errors redirectTo signUpResponse codeResponse st))"
  proof (cases "passesValidation (s_signUpForm st)")
    case True
    then show ?thesis
      by (simp add: signUp_valid split: sum.splits prod.splits)
  next
    case False
    then show ?thesis
      by (simp add: signUp_invalid)
  qed
  show "passesValidation (s_signUpForm st) \<longleftrightarrow>
        test validation_name (orEmpty (f_name (s_signUpForm st)))
        \<and> test validation_email (orEmpty (f_email (s_signUpForm st)))
        \<and> 6 \<le> length (orEmpty (f_password (s_signUpForm st)))
        \<and> length (orEmpty (f_password (s_signUpForm st))) \<le> 256
        \<and> (\<forall>c\<in>set (orEmpty (f_password (s_signUpForm st))). \<not> LineTerminator c)"
    by (simp add: passesValidation_def test_password)
  show "\<not> passesValidation (s_signUpForm st) \<longrightarrow>
        signUp errors redirectTo signUpResponse codeResponse st =
          (st\<lparr>s_isLoading := False,
              s_currentError :=
                (if \<not> test validation_name (orEmpty (f_name (s_signUpForm st)))
                 then errors_get errors ''incomplete-input''
                 else if \<not> test validation_email (orEmpty (f_email (s_signUpForm st)))
                 then errors_get errors ''invalid-email-address''
                 else errors_get errors ''weak-password'')\<rparr>, [])"
    by (simp add: signUp_invalid)
qed

theorem signUp_validation_witness:
  "passesValidation (s_signUpForm sampleSignUp)
   \<and> Fetch (signUpRequest sampleForm)
       \<in> set (snd (signUp sampleErrors None (Inr (sampleUser, sampleTokens)) (Inr ()) sampleSignUp))
   \<and> \<not> passesValidation (s_signUpForm (sampleSignUp\<lparr>s_signUpForm := form_initial\<rparr>))
   \<and> signUp sampleErrors None (Inr (sampleUser, sampleTokens)) (Inr ())
        (sampleSignUp\<lparr>s_signUpForm := form_initial\<rparr>)
     = (sampleSignUp\<lparr>s_signUpForm := form_initial,
                     s_currentError := errors_get sampleErrors ''incomplete-input''\<rparr>, [])
   \<and> \<not> passesValidation (s_signUpForm (sampleSignUp\<lparr>s_signUpForm := separatorForm\<rparr>))
   \<and> signUp sampleErrors None (Inr (sampleUser, sampleTokens)) (Inr ())
        (sampleSignUp\<lparr>s_signUpForm := separatorForm\<rparr>)
     = (sampleSignUp\<lparr>s_signUpForm := separatorForm,
                     s_currentError := errors_get sampleErrors ''weak-password''\<rparr>, [])"
proof -
  have valid: "passesValidation (s_signUpForm sampleSignUp)"
    by (simp add: sampleSignUp_def sampleForm_valid)
  have blank: "\<not> test validation_name (orEmpty (f_name form_initial))"
    by (simp add: test_name form_initial_def orEmpty_def)
  have a: "Fetch (signUpRequest sampleForm)
       \<in> set (snd (signUp sampleErrors None (Inr (sampleUser, sampleTokens)) (Inr ()) sampleSignUp))"
    using valid
      signUp_validation [of sampleSignUp sampleErrors None "Inr (sampleUser, sampleTokens)" "Inr ()"]
    by (simp add: sampleSignUp_def)
  have b: "signUp sampleErrors None (Inr (sampleUser, sampleTokens)) (Inr ())
        (sampleSignUp\<lparr>s_signUpForm := form_initial\<rparr>)
     = (sampleSignUp\<lparr>s_signUpForm := form_initial,
                     s_currentError := errors_get sampleErrors ''incomplete-input''\<rparr>, [])"
    using blank
      signUp_validation [of "sampleSignUp\<lparr>s_signUpForm := form_initial\<rparr>" sampleErrors None
        "Inr (sampleUser, sampleTokens)" "Inr ()"]
    by (simp add: passesValidation_def sampleSignUp_def)
  have c: "signUp sampleErrors None (Inr (sampleUser, sampleTokens)) (Inr ())
        (sampleSignUp\<lparr>s_signUpForm := separatorForm\<rparr>)
     = (sampleSignUp\<lparr>s_signUpForm := separatorForm,
                     s_currentError := errors_get sampleErrors ''weak-password''\<rparr>, [])"
    using separatorForm_checks
      signUp_validation [of "sampleSignUp\<lparr>s_signUpForm := separatorForm\<rparr>" sampleErrors None
        "Inr (sampleUser, sampleTokens)" "Inr ()"]
    by (simp add: passesValidation_def sampleSignUp_def)
  show ?thesis
    using valid blank separatorForm_checks a b c by (simp add: passesValidation_def)
qed

section \<open>Failed calls\<close>

text \<open>
  On an error response each operation has made its call once and no other attempt. For
  the fetches of the two conversation pages, the answer and the account creation the
  page then shows the server's message (for the account creation: the message mapped from
  it) in its toast.
\<close>

lemma one_call_on_error:
  "fetches (snd (fetchConversation conversationId (Inl error) st))
     = [\<lparr>r_url = js ''/conversations/'' @ conversationId, r_method = js ''get'', r_json = NoBody\<rparr>]
   \<and> tv_toast (TakeConversationPage renderMarkdown
         (fst (fetchConversation conversationId (Inl error) st))) = Some (e_message error)
   \<and> fetches (snd (fetchQuestions conversationId (Inl error) st))
     = [\<lparr>r_url = js ''/conversations/'' @ conversationId @ js ''/questions'',
         r_method = js ''get'', r_json = NoBody\<rparr>]
   \<and> tv_toast (TakeConversationPage renderMarkdown
         (fst (fetchQuestions conversationId (Inl error) st))) = Some (e_message error)
   \<and> fetches (snd (fetchConversations localeCompare (Inl error) lst))
     = [\<lparr>r_url = js ''/conversations'', r_method = js ''get'', r_json = NoBody\<rparr>]
   \<and> lv_toast (ConversationListPage groot (fst (fetchConversations localeCompare (Inl error) lst)))
     = Some (e_message error)
   \<and> (t_selectedOption st = Some selectedOption \<and> t_conversation st = Some conversation
        \<and> t_currentQuestion st = Some currentQuestion \<and> answerInput selectedOption = Some input
      \<longrightarrow> fetches (fst (snd (answerQuestion errors (Inl error) st)))
            = [answerRequest conversation currentQuestion (o_position selectedOption) input]
          \<and> tv_toast (TakeConversationPage renderMarkdown
                (fst (answerQuestion errors (Inl error) st))) = Some (e_message error))
   \<and> (passesValidation (s_signUpForm sst) \<and> \<not> isAuthenticated stored
      \<longrightarrow> fetches (snd (signUp errors redirectTo (Inl error) codeResponse sst))
            = [signUpRequest (s_signUpForm sst)]
          \<and> fst (SignUpPage redirectTo
                (stored_after stored (snd (signUp errors redirectTo (Inl error) codeResponse sst)))
                (fst (signUp errors redirectTo (Inl error) codeResponse sst))) = []
          \<and> map_option sv_toast (snd (SignUpPage redirectTo
                (stored_after stored (snd (signUp errors redirectTo (Inl error) codeResponse sst)))
                (fst (signUp errors redirectTo (Inl error) codeResponse sst))))
            = Some (if e_code error = js ''improper-payload''
                    then (if str_includes (e_message error) (js ''password'')
                          then errors_get errors ''weak-password''
                          else errors_get errors ''invalid-email-address'')
                    else if e_code error = js ''entity-already-exists''
                    then errors_get errors ''user-already-exists''
                    else Some (e_message error)))
   \<and> (passesValidation (s_signUpForm sst) \<and> truthy (f_code (s_signUpForm sst))
      \<longrightarrow> fetches (snd (signUp errors redirectTo (Inr (user, tokens)) (Inl error) sst))
            = [signUpRequest (s_signUpForm sst), joinRequest (orEmpty (f_code (s_signUpForm sst)))]
          \<and> s_currentError (fst (signUp errors redirectTo (Inr (user, tokens)) (Inl error) sst))
            = Some (e_message error))"
proof (intro conjI impI)
  show "fetches (snd (fetchConversation conversationId (Inl error) st))
     = [\<lparr>r_url = js ''/conversations/'' @ conversationId, r_method = js ''get'', r_json = NoBody\<rparr>]"
    and "tv_toast (TakeConversationPage renderMarkdown
         (fst (fetchConversation conversationId (Inl error) st))) = Some (e_message error)"
    by (simp_all add: fetchConversation_def TakeConversationPage_def)
  show "fetches (snd (fetchQuestions conversationId (Inl error) st))
     = [\<lparr>r_url = js ''/conversations/'' @ conversationId @ js ''/questions'',
         r_method = js ''get'', r_json = NoBody\<rparr>]"
    and "tv_toast (TakeConversationPage renderMarkdown
         (fst (fetchQuestions conversationId (Inl error) st))) = Some (e_message error)"
    by (simp_all add: fetchQuestions_def TakeConversationPage_def)
  show "fetches (snd (fetchConversations localeCompare (Inl error) lst))
     = [\<lparr>r_url = js ''/conversations'', r_method = js ''get'', r_json = NoBody\<rparr>]"
    and "lv_toast (ConversationListPage groot (fst (fetchConversations localeCompare (Inl error) lst)))
     = Some (e_message error)"
    by (simp_all add: fetchConversations_def ConversationListPage_def)
next
  assume "t_selectedOption st = Some selectedOption \<and> t_conversation st = Some conversation
        \<and> t_currentQuestion st = Some currentQuestion \<and> answerInput selectedOption = Some input"
  then show "fetches (fst (snd (answerQuestion errors (Inl error) st)))
            = [answerRequest conversation currentQuestion (o_position selectedOption) input]"
    and "tv_toast (TakeConversationPage renderMarkdown
                (fst (answerQuestion errors (Inl error) st))) = Some (e_message error)"
    by (simp_all add: answerQuestion_def TakeConversationPage_def)
next
  assume "passesValidation (s_signUpForm sst) \<and> \<not> isAuthenticated stored"
  then show "fetches (snd (signUp errors redirectTo (Inl error) codeResponse sst))
            = [signUpRequest (s_signUpForm sst)]"
    and "fst (SignUpPage redirectTo
                (stored_after stored (snd (signUp errors redirectTo (Inl error) codeResponse sst)))
                (fst (signUp errors redirectTo (Inl error) codeResponse sst))) = []"
    and "map_option sv_toast (snd (SignUpPage redirectTo
                (stored_after stored (snd (signUp errors redirectTo (Inl error) codeResponse sst)))
                (fst (signUp errors redirectTo (Inl error) codeResponse sst))))
            = Some (if e_code error = js ''improper-payload''
                    then (if str_includes (e_message error) (js ''password'')
                          then errors_get errors ''weak-password''
                          else errors_get errors ''invalid-email-address'')
                    else if e_code error = js ''entity-already-exists''
                    then errors_get errors ''user-already-exists''
                    else Some (e_message error))"
    by (simp_all add: signUp_valid SignUpPage_def signUpErrorMessage_def)
next
  assume "passesValidation (s_signUpForm sst) \<and> truthy (f_code (s_signUpForm sst))"
  then show "fetches (snd (signUp errors redirectTo (Inr (user, tokens)) (Inl error) sst))
            = [signUpRequest (s_signUpForm sst), joinRequest (orEmpty (f_code (s_signUpForm sst)))]"
    and "s_currentError (fst (signUp errors redirectTo (Inr (user, tokens)) (Inl error) sst))
            = Some (e_message error)"
    by (simp_all add: signUp_valid)
qed

text \<open>
  The group join is different. By the time its error arrives the handler has stored the
  tokens, so the render that the new error message causes finds the user signed in: the
  page navigates to the redirect target and returns nothing, whatever the storage held
  before.
\<close>

lemma join_error_rerender:
  "passesValidation (s_signUpForm st) \<Longrightarrow> truthy (f_code (s_signUpForm st)) \<Longrightarrow>
   SignUpPage redirectTo
     (stored_after stored (snd (signUp errors redirectTo (Inr (user, tokens)) (Inl error) st)))
     (fst (signUp errors redirectTo (Inr (user, tokens)) (Inl error) st))
     = ([Route (Nav (redirectTarget redirectTo) True)], None)"
  by (simp add: signUp_valid SignUpPage_def isAuthenticated_def storage_get_def storage_set_def)

lemma sampleSignUp_ready:
  "passesValidation (s_signUpForm sampleSignUp)" "truthy (f_code (s_signUpForm sampleSignUp))"
  "s_signUpForm sampleSignUp = sampleForm" "orEmpty (f_code sampleForm) = js ''engine''"
  "truthy (f_code sampleForm)"
  using sampleForm_valid
  by (simp_all add: sampleSignUp_def truthy_def sampleForm_def orEmpty_def js_def)

text \<open>
  Claim C6. No operation makes a second attempt of a failed call, and five of the six
  show the server's message (the lemma above). The claim fails for the group join: the
  handler makes the two calls once each and sets the error message in the state, but the
  page, rendered in the state and storage the handler leaves, shows no toast: it returns
  nothing.
\<close>

theorem join_error_not_shown:
  "\<not> isAuthenticated []
   \<and> fetches (snd (signUp sampleErrors None (Inr (sampleUser, sampleTokens)) (Inl serverError)
         sampleSignUp))
     = [signUpRequest sampleForm, joinRequest (js ''engine'')]
   \<and> s_currentError (fst (signUp sampleErrors None (Inr (sampleUser, sampleTokens))
         (Inl serverError) sampleSignUp))
     = Some (js ''Something went wrong'')
   \<and> stored_after [] (snd (signUp sampleErrors None (Inr (sampleUser, sampleTokens))
         (Inl serverError) sampleSignUp))
     = [(js ''tokens'', sampleTokens), (js ''user'', sampleUser)]
   \<and> isAuthenticated (stored_after [] (snd (signUp sampleErrors None
         (Inr (sampleUser, sampleTokens)) (Inl serverError) sampleSignUp)))
   \<and> snd (SignUpPage None
         (stored_after [] (snd (signUp sampleErrors None (Inr (sampleUser, sampleTokens))
            (Inl serverError) sampleSignUp)))
         (fst (signUp sampleErrors None (Inr (sampleUser, sampleTokens)) (Inl serverError)
            sampleSignUp)))
     = None"
proof -
  note run = signUp_valid [OF sampleSignUp_ready(1), of sampleErrors None
      "Inr (sampleUser, sampleTokens)" "Inl serverError"]
  have "js ''tokens'' \<noteq> js ''user''"
    by (simp add: js_def)
  then show ?thesis
    unfolding run
    by (simp add: sampleSignUp_ready SignUpPage_def isAuthenticated_def storage_get_def
          storage_set_def serverError_def)
qed

section \<open>The delayed redirect\<close>

text \<open>
  The handler schedules a navigation on the join-error path and nowhere else, and no
  other operation of the three pages schedules anything; on that path it makes no
  navigation of its own.
\<close>

lemma timer_on_join_error_only:
  "(passesValidation (s_signUpForm sst) \<and> truthy (f_code (s_signUpForm sst)) \<longrightarrow>
      timers (snd (signUp errors redirectTo (Inr (user, tokens)) (Inl error) sst))
        = [(Nav (js ''/groups'') True, 2500)]
      \<and> routes (snd (signUp errors redirectTo (Inr (user, tokens)) (Inl error) sst)) = [])
   \<and> (timers (snd (signUp errors redirectTo signUpResponse codeResponse sst)) \<noteq> [] \<longleftrightarrow>
        passesValidation (s_signUpForm sst) \<and> \<not> isl signUpResponse
        \<and> truthy (f_code (s_signUpForm sst)) \<and> isl codeResponse)
   \<and> timers (fst (SignUpPage redirectTo stored sst)) = []
   \<and> timers (snd (fetchConversation conversationId conversationResponse st)) = []
   \<and> timers (snd (fetchQuestions conversationId questionsResponse st)) = []
   \<and> timers (fst (snd (answerQuestion errors answerResponse st))) = []
   \<and> timers (snd (fetchConversations localeCompare listResponse lst)) = []"
proof (intro conjI impI)
  assume "passesValidation (s_signUpForm sst) \<and> truthy (f_code (s_signUpForm sst))"
  then show "timers (snd (signUp errors redirectTo (Inr (user, tokens)) (Inl error) sst))
        = [(Nav (js ''/groups'') True, 2500)]"
    and "routes (snd (signUp errors redirectTo (Inr (user, tokens)) (Inl error) sst)) = []"
    by (simp_all add: signUp_valid)
next
  show "timers (snd (signUp errors redirectTo signUpResponse codeResponse sst)) \<noteq> [] \<longleftrightarrow>
        passesValidation (s_signUpForm sst) \<and> \<not> isl signUpResponse
        \<and> truthy (f_code (s_signUpForm sst)) \<and> isl codeResponse"
  proof (cases "passesValidation (s_signUpForm sst)")
    case True
    then show ?thesis
      by (cases signUpResponse; cases codeResponse; cases "truthy (f_code (s_signUpForm sst))")
         (auto simp: signUp_valid)
  next
    case False
    then show ?thesis
      by (simp add: signUp_invalid)
  qed
  show "timers (fst (SignUpPage redirectTo stored sst)) = []"
    by (simp add: SignUpPage_def)
  show "timers (snd (fetchConversation conversationId conversationResponse st)) = []"
    by (cases conversationResponse) (simp_all add: fetchConversation_def)
  show "timers (snd (fetchQuestions conversationId questionsResponse st)) = []"
    by (cases questionsResponse) (simp_all add: fetchQuestions_def)
  show "timers (fst (snd (answerQuestion errors answerResponse st))) = []"
    by (simp add: answerQuestion_def Let_def split: option.splits sum.splits)
  show "timers (snd (fetchConversations localeCompare listResponse lst)) = []"
    by (cases listResponse) (simp_all add: fetchConversations_def)
qed

text \<open>
  Claim C7. The handler does what the claim says: on the error of the group join it sets
  the error message, schedules one navigation to \<^verbatim>\<open>/groups\<close> after 2500 ms and returns
  before its navigation to the redirect target. The page does not: the render that
  follows, with the tokens in the storage, navigates to the redirect target (here
  \<^verbatim>\<open>/reports\<close>) and shows nothing, so the error is not displayed and the navigation the
  handler avoided takes place before the scheduled one.
\<close>

theorem join_error_navigates:
  "timers (snd (signUp sampleErrors (Some (js ''/reports'')) (Inr (sampleUser, sampleTokens))
       (Inl serverError) sampleSignUp))
     = [(Nav (js ''/groups'') True, 2500)]
   \<and> routes (snd (signUp sampleErrors (Some (js ''/reports'')) (Inr (sampleUser, sampleTokens))
       (Inl serverError) sampleSignUp)) = []
   \<and> SignUpPage (Some (js ''/reports''))
       (stored_after [] (snd (signUp sampleErrors (Some (js ''/reports''))
          (Inr (sampleUser, sampleTokens)) (Inl serverError) sampleSignUp)))
       (fst (signUp sampleErrors (Some (js ''/reports'')) (Inr (sampleUser, sampleTokens))
          (Inl serverError) sampleSignUp))
     = ([Route (Nav (js ''/reports'') True)], None)"
proof -
  note run = signUp_valid [OF sampleSignUp_ready(1), of sampleErrors "Some (js ''/reports'')"
      "Inr (sampleUser, sampleTokens)" "Inl serverError"]
  show ?thesis
    unfolding run
    by (simp add: sampleSignUp_ready SignUpPage_def isAuthenticated_def storage_get_def
          storage_set_def redirectTarget_def)
qed

section \<open>The conversation list\<close>



















end
